theory Spec2Isabelle
  imports Complex_Main "HOL-Library.AList" "HOL-Library.Sublist" "HOL-Library.Multiset"
begin

section \<open>Python values used by the equity token\<close>

subsection \<open>Exceptions\<close>

text \<open>
  Every failure of \<^verbatim>\<open>equity.py\<close> is a raised exception; the model returns it as the
  left summand of a result. \<open>Unauthorized\<close>, \<open>InvalidArgument\<close> and \<open>NotAShareholder\<close>
  are the three \<^verbatim>\<open>ValueError\<close>s of the module (raised by \<^verbatim>\<open>_assert_is_emitter\<close>, by the
  argument checks of \<^verbatim>\<open>split_stock\<close> and \<^verbatim>\<open>set_delegate\<close>, and by
  \<^verbatim>\<open>_assert_is_shareholder\<close>), named as the specification names them. The others are
  the exceptions of the Python operations the module uses.
\<close>

datatype error =
    Unauthorized
  | InvalidArgument
  | NotAShareholder
  | InsufficientFunds
  | ZeroDivisionError
  | OverflowError
  | KeyError

subsection \<open>Floats\<close>

text \<open>
  A Python \<^verbatim>\<open>float\<close> is an IEEE-754 binary64 number. A finite one is modelled by the real
  number it denotes; infinities and NaN are not values of the model, and an operation
  whose result would be infinite is modelled where the module consumes it. Arithmetic
  rounds to the nearest double, ties to even: \<open>round_double x\<close> is the double nearest to
  \<open>x\<close>, with 53 significant bits, subnormal below \<open>2\<^sup>-\<^sup>1\<^sup>0\<^sup>2\<^sup>2\<close>, and computed as if
  the exponent had no upper bound (a result of magnitude \<open>2\<^sup>1\<^sup>0\<^sup>2\<^sup>4\<close> or more is an
  overflow).
\<close>

fun bit_length :: "nat \<Rightarrow> nat" where
  "bit_length n = (if n = 0 then 0 else Suc (bit_length (n div 2)))"

declare bit_length.simps [simp del]

definition pow2 :: "int \<Rightarrow> real" where
  "pow2 e = (if 0 \<le> e then 2 ^ nat e else 1 / 2 ^ nat (- e))"

definition round_half_even :: "real \<Rightarrow> int" where
  "round_half_even x =
     (let f = \<lfloor>x\<rfloor>; d = x - of_int f
      in if d < 1 / 2 then f
         else if 1 / 2 < d then f + 1
         else if even f then f else f + 1)"

text \<open>The exponent \<open>e\<close> with \<open>2\<^sup>e \<le> |x| < 2\<^sup>e\<^sup>+\<^sup>1\<close>, for \<open>x \<noteq> 0\<close>.\<close>

definition float_exponent :: "real \<Rightarrow> int" where
  "float_exponent x =
     (if 1 \<le> \<bar>x\<bar> then int (bit_length (nat \<lfloor>\<bar>x\<bar>\<rfloor>)) - 1
      else - int (bit_length (nat (\<lceil>1 / \<bar>x\<bar>\<rceil> - 1))))"

definition round_double :: "real \<Rightarrow> real" where
  "round_double x =
     (if x = 0 then 0
      else let ulp = pow2 (max (float_exponent x) (- 1022) - 52)
           in sgn x * of_int (round_half_even (\<bar>x\<bar> / ulp)) * ulp)"

text \<open>A decimal literal such as \<^verbatim>\<open>0.05\<close> denotes the double nearest to it.\<close>

definition float_literal :: "real \<Rightarrow> real" where
  "float_literal x = round_double x"

text \<open>\<^verbatim>\<open>a / b\<close> on two ints: the correctly rounded quotient.\<close>

definition py_truediv :: "int \<Rightarrow> int \<Rightarrow> error + real" where
  "py_truediv a b =
     (if b = 0 then Inl ZeroDivisionError
      else let r = round_double (of_int a / of_int b)
           in if 2 ^ 1024 \<le> \<bar>r\<bar> then Inl OverflowError else Inr r)"

text \<open>\<^verbatim>\<open>float(n)\<close>, the conversion \<^verbatim>\<open>n * x\<close> applies to its int operand.\<close>

definition float_of_int :: "int \<Rightarrow> error + real" where
  "float_of_int n =
     (let r = round_double (of_int n)
      in if 2 ^ 1024 \<le> \<bar>r\<bar> then Inl OverflowError else Inr r)"

text \<open>\<^verbatim>\<open>int(x)\<close> on a finite float truncates toward zero.\<close>

definition int_of_float :: "real \<Rightarrow> int" where
  "int_of_float x = (if 0 \<le> x then \<lfloor>x\<rfloor> else \<lceil>x\<rceil>)"

text \<open>
  \<^verbatim>\<open>int(balance * factor)\<close> with an int balance and a float factor: the balance is
  converted, the product rounded, the result truncated. A product that overflows is an
  infinity, which \<^verbatim>\<open>int\<close> rejects with \<^verbatim>\<open>OverflowError\<close>.
\<close>

definition int_of_product :: "int \<Rightarrow> real \<Rightarrow> error + int" where
  "int_of_product balance factor =
     (case float_of_int balance of
        Inl e \<Rightarrow> Inl e
      | Inr x \<Rightarrow>
          let p = round_double (x * factor)
          in if 2 ^ 1024 \<le> \<bar>p\<bar> then Inl OverflowError else Inr (int_of_float p))"

subsection \<open>Dictionaries and sums\<close>

text \<open>
  A \<^verbatim>\<open>dict\<close> is an association list in insertion order with distinct keys:
  \<open>AList.update\<close> is \<^verbatim>\<open>d[k] = v\<close> (in place for a present key, appended for a new one),
  \<open>AList.delete\<close> is \<^verbatim>\<open>del d[k]\<close>, \<open>map fst\<close> is the iteration over the keys.
\<close>

definition dict_index :: "('k \<times> 'v) list \<Rightarrow> 'k \<Rightarrow> error + 'v" where
  "dict_index d k = (case map_of d k of None \<Rightarrow> Inl KeyError | Some v \<Rightarrow> Inr v)"

definition dict_get :: "('k \<times> 'v) list \<Rightarrow> 'k \<Rightarrow> 'v \<Rightarrow> 'v" where
  "dict_get d k dflt = (case map_of d k of None \<Rightarrow> dflt | Some v \<Rightarrow> v)"

text \<open>\<^verbatim>\<open>sum(...)\<close> over a generator whose elements may raise: the first exception wins.\<close>

fun py_sum :: "(error + int) list \<Rightarrow> error + int" where
  "py_sum [] = Inr 0"
| "py_sum (x # xs) =
     (case x of
        Inl e \<Rightarrow> Inl e
      | Inr v \<Rightarrow> (case py_sum xs of Inl e \<Rightarrow> Inl e | Inr t \<Rightarrow> Inr (v + t)))"

section \<open>The state of the token\<close>

text \<open>
  Modelled from the spec: \<^verbatim>\<open>base.minted\<close> and \<^verbatim>\<open>base.burnt\<close> of the ledger library
  \<^verbatim>\<open>pikciotok.base\<close>, which is not part of the sources. They send the notifications of
  a stock split, each with its sender, its amount and the new supply; the model keeps
  the notifications sent, oldest first.
\<close>

datatype event =
    Minted string int int
  | Burnt string int int

text \<open>
  The module-level variables of \<^verbatim>\<open>equity.py\<close> that the modelled functions read or
  write, the calling account \<^verbatim>\<open>context.sender\<close>, and the notifications sent so far.
\<close>

record state =
  name :: string
  symbol :: string
  decimals :: nat
  total_supply :: int
  balance_of :: "(string \<times> int) list"
  vote_mode :: int
  emitter :: string
  delegations :: "(string \<times> string) list"
  sender :: string
  events :: "event list"

definition VOTE_POLICY_ODOV :: int where
  "VOTE_POLICY_ODOV = 1"

definition VOTE_POLICY_OPOV :: int where
  "VOTE_POLICY_OPOV = 2"

definition SHAREHOLDERS_RIGHTS :: "(real \<times> string list) list" where
  "SHAREHOLDERS_RIGHTS =
     [(float_literal (5 / 100),
        [''apply to court to prevent the conversion of a public company into a private company'',
         ''call a general meeting'',
         ''require the circulation of a written resolution to shareholders (in private companies)'',
         ''require the passing of a resolution at an annual general meeting (AGM) of a public company.'']),
      (float_literal (1 / 10),
        [''call for a poll vote on a resolution'',
         ''right to prevent a meeting being held on short notice (in private companies).'']),
      (float_literal (15 / 100),
        [''apply to the court to cancel a variation of class rights, provided such shareholders did not consent to, or vote in favour of, the variation.'']),
      (float_literal (25 / 100),
        [''prevent the passing of a special resolution''])]"

text \<open>
  Modelled from the spec: \<^verbatim>\<open>base.Balances(balance_of).get(address)\<close>, which
  "treats absent address as balance 0". The argument may be Python's \<^verbatim>\<open>None\<close>, which
  is never a key.
\<close>

definition Balances_get :: "(string \<times> int) list \<Rightarrow> string option \<Rightarrow> int" where
  "Balances_get balances address =
     (case address of None \<Rightarrow> 0 | Some a \<Rightarrow> dict_get balances a 0)"

text \<open>
  Modelled from the spec: the write of a balance by the ledger library, under
  \<^verbatim>\<open>base.missing_balance_means_zero = True\<close>: "holder records are pruned on balance
  reaching zero".
\<close>

definition Balances_set :: "(string \<times> int) list \<Rightarrow> string \<Rightarrow> int \<Rightarrow> (string \<times> int) list" where
  "Balances_set balances a v =
     (if v = 0 then AList.delete a balances else AList.update a v balances)"

text \<open>
  Modelled from the spec: \<^verbatim>\<open>base.transfer(balances, from, to, amount)\<close>. It fails with
  \<open>InsufficientFunds\<close> when the source holds less than the amount, and otherwise moves
  the amount from the source to the recipient.
\<close>

definition base_transfer ::
  "(string \<times> int) list \<Rightarrow> string \<Rightarrow> string \<Rightarrow> int \<Rightarrow> error + (string \<times> int) list" where
  "base_transfer balances from_address to_address amount =
     (if Balances_get balances (Some from_address) < amount then Inl InsufficientFunds
      else let b1 = Balances_set balances from_address
                      (Balances_get balances (Some from_address) - amount)
           in Inr (Balances_set b1 to_address (Balances_get b1 (Some to_address) + amount)))"

section \<open>The functions of \<^verbatim>\<open>equity.py\<close>\<close>

text \<open>
  A query takes the state and returns a value or an exception. A command returns the
  value or exception together with the state it leaves. An optional address parameter
  (\<^verbatim>\<open>address: str = None\<close>) is a \<open>string option\<close>.
\<close>

subsection \<open>Initialiser and actions\<close>

definition init :: "int \<Rightarrow> string \<Rightarrow> string \<Rightarrow> state \<Rightarrow> state" where
  "init supply name' symbol' s =
     (let v = supply * 10 ^ decimals s
      in s\<lparr>name := name', symbol := symbol', emitter := sender s,
           balance_of := AList.update (sender s) v (balance_of s),
           total_supply := v\<rparr>)"

definition assert_is_emitter :: "string \<Rightarrow> state \<Rightarrow> error + unit" where
  "assert_is_emitter address s = (if address \<noteq> emitter s then Inl Unauthorized else Inr ())"

definition transfer :: "string \<Rightarrow> int \<Rightarrow> state \<Rightarrow> (error + bool) \<times> state" where
  "transfer to_address amount s =
     (case base_transfer (balance_of s) (sender s) to_address amount of
        Inl e \<Rightarrow> (Inl e, s)
      | Inr b \<Rightarrow> (Inr True, s\<lparr>balance_of := b\<rparr>))"

text \<open>
  The first loop of \<^verbatim>\<open>split_stock\<close>, over the keys of \<^verbatim>\<open>balance_of\<close>; an exception leaves
  the accounts before it updated.
\<close>

fun split_balances ::
  "string list \<Rightarrow> real \<Rightarrow> (string \<times> int) list \<Rightarrow> error option \<times> (string \<times> int) list" where
  "split_balances [] factor balances = (None, balances)"
| "split_balances (account # accounts) factor balances =
     (case dict_index balances account of
        Inl e \<Rightarrow> (Some e, balances)
      | Inr b \<Rightarrow>
          (case int_of_product b factor of
             Inl e \<Rightarrow> (Some e, balances)
           | Inr v \<Rightarrow> split_balances accounts factor (AList.update account v balances)))"

definition split_stock :: "real \<Rightarrow> state \<Rightarrow> (error + int) \<times> state" where
  "split_stock factor s =
     (case assert_is_emitter (sender s) s of
        Inl e \<Rightarrow> (Inl e, s)
      | Inr _ \<Rightarrow>
          if factor \<le> 0 then (Inl InvalidArgument, s)
          else
            (case split_balances (map fst (balance_of s)) factor (balance_of s) of
               (Some e, b) \<Rightarrow> (Inl e, s\<lparr>balance_of := b\<rparr>)
             | (None, b) \<Rightarrow>
                 (case py_sum (map (dict_index b) (map fst b)) of
                    Inl e \<Rightarrow> (Inl e, s\<lparr>balance_of := b\<rparr>)
                  | Inr new_total_supply \<Rightarrow>
                      let delta_supply = new_total_supply - total_supply s;
                          evs =
                            (if 0 < delta_supply
                             then events s @ [Minted (emitter s) delta_supply new_total_supply]
                             else if delta_supply < 0
                             then events s @ [Burnt (emitter s) (- delta_supply) new_total_supply]
                             else events s)
                      in (Inr new_total_supply,
                          s\<lparr>balance_of := b, events := evs,
                            total_supply := new_total_supply\<rparr>))))"


subsection \<open>Global accessors\<close>

definition set_vote_mode :: "int \<Rightarrow> state \<Rightarrow> (error + int) \<times> state" where
  "set_vote_mode mode s =
     (case assert_is_emitter (sender s) s of
        Inl e \<Rightarrow> (Inl e, s)
      | Inr _ \<Rightarrow> (Inr (vote_mode s), s\<lparr>vote_mode := mode\<rparr>))"

subsection \<open>Delegation\<close>

text \<open>\<^verbatim>\<open>address or context.sender\<close>: \<^verbatim>\<open>None\<close> and the empty string are both falsy.\<close>

definition address_or_sender :: "string option \<Rightarrow> state \<Rightarrow> string" where
  "address_or_sender address s =
     (case address of
        None \<Rightarrow> sender s
      | Some a \<Rightarrow> if a = [] then sender s else a)"

definition get_delegate :: "string option \<Rightarrow> state \<Rightarrow> string" where
  "get_delegate address s = dict_get (delegations s) (address_or_sender address s) []"


definition remove_delegate :: "state \<Rightarrow> string \<times> state" where
  "remove_delegate s =
     (let previous_delegate = get_delegate None s
      in if previous_delegate \<noteq> []
         then (previous_delegate, s\<lparr>delegations := AList.delete (sender s) (delegations s)\<rparr>)
         else (previous_delegate, s))"

subsection \<open>Shares\<close>

definition get_total_shareholders :: "state \<Rightarrow> int" where
  "get_total_shareholders s = int (length (balance_of s))"

definition is_shareholder :: "string option \<Rightarrow> state \<Rightarrow> bool" where
  "is_shareholder address s = (address_or_sender address s \<in> set (map fst (balance_of s)))"

definition assert_is_shareholder :: "string option \<Rightarrow> state \<Rightarrow> error + unit" where
  "assert_is_shareholder address s =
     (if \<not> is_shareholder address s then Inl NotAShareholder else Inr ())"

definition is_delegating :: "string option \<Rightarrow> state \<Rightarrow> bool" where
  "is_delegating address s = (get_delegate address s \<noteq> [])"

text \<open>
  \<^verbatim>\<open>delegations[addr] == address\<close> compares with the parameter as given: \<^verbatim>\<open>None\<close> equals no
  stored delegate.
\<close>

definition get_delegators :: "string option \<Rightarrow> state \<Rightarrow> error + string list" where
  "get_delegators address s =
     (case assert_is_shareholder address s of
        Inl e \<Rightarrow> Inl e
      | Inr _ \<Rightarrow>
          Inr (filter (\<lambda>addr. map_of (delegations s) addr = address)
                 (map fst (delegations s))))"

definition get_organic_shares :: "string option \<Rightarrow> state \<Rightarrow> error + int" where
  "get_organic_shares address s =
     (case assert_is_shareholder address s of
        Inl e \<Rightarrow> Inl e
      | Inr _ \<Rightarrow> Inr (Balances_get (balance_of s) address))"

definition get_delegated_shares :: "string option \<Rightarrow> state \<Rightarrow> error + int" where
  "get_delegated_shares address s =
     (case get_delegators address s of
        Inl e \<Rightarrow> Inl e
      | Inr ds \<Rightarrow> py_sum (map (\<lambda>addr. get_organic_shares (Some addr) s) ds))"

definition get_shares :: "string option \<Rightarrow> state \<Rightarrow> error + int" where
  "get_shares address s =
     (case assert_is_shareholder address s of
        Inl e \<Rightarrow> Inl e
      | Inr _ \<Rightarrow>
          if \<not> is_delegating address s
          then (case get_delegated_shares address s of
                  Inl e \<Rightarrow> Inl e
                | Inr d \<Rightarrow>
                    (case get_organic_shares address s of
                       Inl e \<Rightarrow> Inl e
                     | Inr v \<Rightarrow> Inr (d + v)))
          else Inr 0)"

subsection \<open>Votes\<close>

definition get_total_votes :: "state \<Rightarrow> int" where
  "get_total_votes s =
     (if vote_mode s = VOTE_POLICY_ODOV then total_supply s else int (length (balance_of s)))"

definition get_organic_votes :: "string option \<Rightarrow> state \<Rightarrow> error + int" where
  "get_organic_votes address s =
     (if vote_mode s = VOTE_POLICY_ODOV then get_shares address s else Inr 1)"

definition get_delegated_votes :: "string option \<Rightarrow> state \<Rightarrow> error + int" where
  "get_delegated_votes address s =
     (case get_delegators address s of
        Inl e \<Rightarrow> Inl e
      | Inr ds \<Rightarrow> py_sum (map (\<lambda>addr. get_organic_votes (Some addr) s) ds))"

definition get_votes :: "string option \<Rightarrow> state \<Rightarrow> error + int" where
  "get_votes address s =
     (if \<not> is_delegating address s
      then (case get_delegated_votes address s of
              Inl e \<Rightarrow> Inl e
            | Inr d \<Rightarrow>
                (case get_organic_votes address s of
                   Inl e \<Rightarrow> Inl e
                 | Inr v \<Rightarrow> Inr (d + v)))
      else Inr 0)"

subsection \<open>Weight and rights\<close>

definition get_organic_weight :: "string option \<Rightarrow> state \<Rightarrow> error + real" where
  "get_organic_weight address s =
     (case get_organic_votes address s of
        Inl e \<Rightarrow> Inl e
      | Inr v \<Rightarrow> py_truediv v (get_total_votes s))"

definition get_weight :: "string option \<Rightarrow> state \<Rightarrow> error + real" where
  "get_weight address s =
     (case get_votes address s of
        Inl e \<Rightarrow> Inl e
      | Inr v \<Rightarrow> py_truediv v (get_total_votes s))"

definition is_organic_majority :: "string option \<Rightarrow> state \<Rightarrow> error + bool" where
  "is_organic_majority address s =
     (case get_organic_weight address s of
        Inl e \<Rightarrow> Inl e
      | Inr w \<Rightarrow> Inr (float_literal (5 / 10) < w))"

definition is_majority :: "string option \<Rightarrow> state \<Rightarrow> error + bool" where
  "is_majority address s =
     (case get_weight address s of
        Inl e \<Rightarrow> Inl e
      | Inr w \<Rightarrow> Inr (float_literal (5 / 10) < w))"

text \<open>\<^verbatim>\<open>_get_rights\<close>: the chained right-lists of the brackets the weight reaches.\<close>

definition priv_get_rights :: "real \<Rightarrow> string list" where
  "priv_get_rights percentage =
     concat [rights. (min_weight, rights) \<leftarrow> SHAREHOLDERS_RIGHTS, min_weight \<le> percentage]"

definition get_organic_rights :: "string option \<Rightarrow> state \<Rightarrow> error + string list" where
  "get_organic_rights address s =
     (case get_organic_weight address s of
        Inl e \<Rightarrow> Inl e
      | Inr w \<Rightarrow> Inr (priv_get_rights w))"

definition get_rights :: "string option \<Rightarrow> state \<Rightarrow> error + string list" where
  "get_rights address s =
     (case get_weight address s of
        Inl e \<Rightarrow> Inl e
      | Inr w \<Rightarrow> Inr (priv_get_rights w))"

section \<open>Auxiliary notions\<close>

text \<open>The brackets a weight reaches, in the order of the table.\<close>

definition unlocked :: "real \<Rightarrow> (real \<times> string list) list \<Rightarrow> (real \<times> string list) list" where
  "unlocked w brackets = filter (\<lambda>b. fst b \<le> w) brackets"





text \<open>
  The balance ledger as a \<^verbatim>\<open>dict\<close> of non-negative amounts: distinct keys, no negative
  balance.
\<close>

definition ledger_wf :: "state \<Rightarrow> bool" where
  "ledger_wf s \<longleftrightarrow>
     distinct (map fst (balance_of s)) \<and> list_all (\<lambda>(a, b). 0 \<le> b) (balance_of s)"

text \<open>
  A value is a finite double when its magnitude is below \<open>2\<^sup>1\<^sup>0\<^sup>2\<^sup>4\<close>. \<open>double_product b f\<close> is
  the float \<^verbatim>\<open>b * f\<close> for an int \<open>b\<close> and a float \<open>f\<close>; a split by \<open>f\<close> is in range when
  every balance converts to a finite double and every product is one.
\<close>

definition in_double_range :: "real \<Rightarrow> bool" where
  "in_double_range x \<longleftrightarrow> \<bar>x\<bar> < 2 ^ 1024"

definition double_product :: "int \<Rightarrow> real \<Rightarrow> real" where
  "double_product b f = round_double (round_double (of_int b) * f)"

definition split_in_range :: "real \<Rightarrow> state \<Rightarrow> bool" where
  "split_in_range f s \<longleftrightarrow>
     list_all (\<lambda>(a, b). in_double_range (round_double (of_int b)) \<and>
                         in_double_range (double_product b f)) (balance_of s)"

section \<open>Example states\<close>

text \<open>The module as loaded, before \<^verbatim>\<open>init\<close>, called by the given account.\<close>

definition initial_state :: "string \<Rightarrow> state" where
  "initial_state caller =
     \<lparr>name = [], symbol = [], decimals = 0, total_supply = 0, balance_of = [],
      vote_mode = VOTE_POLICY_ODOV, emitter = [], delegations = [], sender = caller,
      events = []\<rparr>"

text \<open>
  The scenario of \<^verbatim>\<open>test.py\<close>: the emitter creates 13,000,000 shares and transfers
  1,200,000 of them to John; then the vote policy is switched.
\<close>

definition scenario_odov :: state where
  "scenario_odov =
     snd (transfer ''John'' 1200000
            (init 13000000 ''Pikciotronics Ltd'' ''PKT'' (initial_state ''Pikcio SA'')))"

definition scenario_opov :: state where
  "scenario_opov = snd (set_vote_mode VOTE_POLICY_OPOV scenario_odov)"

text \<open>Two holders, the second delegating to the first, who is the emitter and the caller.\<close>

definition delegation_ledger :: state where
  "delegation_ledger =
     \<lparr>name = ''Acme'', symbol = ''ACM'', decimals = 0, total_supply = 15,
      balance_of = [(''A'', 10), (''B'', 5)], vote_mode = VOTE_POLICY_ODOV,
      emitter = ''A'', delegations = [(''B'', ''A'')], sender = ''A'', events = []\<rparr>"

text \<open>Two holders under one-holder-one-vote, the second with a single share.\<close>

definition small_holder_ledger :: state where
  "small_holder_ledger =
     \<lparr>name = ''Acme'', symbol = ''ACM'', decimals = 0, total_supply = 11,
      balance_of = [(''A'', 10), (''B'', 1)], vote_mode = VOTE_POLICY_OPOV,
      emitter = ''A'', delegations = [], sender = ''A'', events = []\<rparr>"

text \<open>A single holder of \<open>2\<^sup>5\<^sup>3 + 1\<close> shares, who is the emitter and the caller.\<close>

definition big_holder_ledger :: state where
  "big_holder_ledger =
     \<lparr>name = ''Acme'', symbol = ''ACM'', decimals = 0, total_supply = 9007199254740993,
      balance_of = [(''A'', 9007199254740993)], vote_mode = VOTE_POLICY_ODOV,
      emitter = ''A'', delegations = [], sender = ''A'', events = []\<rparr>"


section \<open>Evaluation rules\<close>

lemmas float_eval =
  round_double_def float_exponent_def pow2_def round_half_even_def bit_length.simps Let_def
  float_literal_def

lemmas query_defs =
  get_organic_votes_def get_shares_def get_organic_shares_def get_delegated_shares_def
  get_delegators_def assert_is_shareholder_def is_shareholder_def is_delegating_def
  get_delegate_def address_or_sender_def Balances_get_def dict_get_def
  get_delegated_votes_def get_votes_def get_total_votes_def get_total_shareholders_def

section \<open>Rounding\<close>

lemma round_half_even_bounds:
  "\<lfloor>x\<rfloor> \<le> round_half_even x \<and> round_half_even x \<le> \<lfloor>x\<rfloor> + 1"
  by (simp add: round_half_even_def Let_def)

lemma round_half_even_nonneg: "0 \<le> x \<Longrightarrow> 0 \<le> round_half_even x"
proof -
  assume "0 \<le> x"
  then have "0 \<le> \<lfloor>x\<rfloor>" by simp
  with round_half_even_bounds [of x] show ?thesis by linarith
qed

lemma round_half_even_le: "x \<le> of_int n \<Longrightarrow> round_half_even x \<le> n"
proof (cases "x = of_int n")
  case True
  then show ?thesis by (simp add: round_half_even_def Let_def)
next
  case False
  assume "x \<le> of_int n"
  with False have "x < of_int n" by simp
  then have "\<lfloor>x\<rfloor> < n" by (simp add: floor_less_iff)
  with round_half_even_bounds [of x] show ?thesis by linarith
qed

lemma pow2_pos: "0 < pow2 e"
  by (simp add: pow2_def)

lemma round_double_nonneg: "0 \<le> x \<Longrightarrow> 0 \<le> round_double x"
  by (auto simp: round_double_def Let_def sgn_if pow2_pos less_imp_le round_half_even_nonneg)

lemma bit_length_1: "bit_length (Suc 0) = Suc 0"
  by (simp add: bit_length.simps)

text \<open>A quotient in \<open>(0, 1]\<close> rounds into \<open>[0, 1]\<close>: no weight overflows.\<close>

lemma round_double_le_1:
  assumes "0 < x" "x \<le> 1"
  shows "round_double x \<le> 1"
proof -
  define E where "E = max (float_exponent x) (- 1022) - 52"
  have fe: "float_exponent x \<le> 0"
    using assms by (auto simp: float_exponent_def bit_length_1)
  then have E: "E < 0" by (simp add: E_def)
  define k where "k = nat (- E)"
  have ulp: "pow2 E = 1 / 2 ^ k" using E by (simp add: pow2_def k_def)
  have "\<bar>x\<bar> / pow2 E = x * 2 ^ k" using assms by (simp add: ulp)
  also have "\<dots> \<le> 2 ^ k" using assms by simp
  finally have "\<bar>x\<bar> / pow2 E \<le> of_int (2 ^ k)" by simp
  then have "round_half_even (\<bar>x\<bar> / pow2 E) \<le> 2 ^ k" by (rule round_half_even_le)
  then have "real_of_int (round_half_even (\<bar>x\<bar> / pow2 E)) \<le> 2 ^ k"
    by (metis of_int_le_iff of_int_numeral of_int_power)
  then have "real_of_int (round_half_even (\<bar>x\<bar> / pow2 E)) * pow2 E \<le> 1"
    by (simp add: ulp field_simps)
  then show ?thesis using assms by (simp add: round_double_def Let_def E_def)
qed

lemma py_truediv_one:
  assumes "0 < n"
  shows "py_truediv 1 n = Inr (round_double (1 / of_int n))"
proof -
  have pos: "0 < 1 / real_of_int n" using assms by simp
  have le: "1 / real_of_int n \<le> 1" using assms by simp
  have a: "0 \<le> round_double (1 / of_int n)" using pos by (simp add: round_double_nonneg)
  have b: "round_double (1 / of_int n) \<le> 1" using pos le by (rule round_double_le_1)
  have "\<bar>round_double (1 / of_int n)\<bar> \<le> 1" using a b by simp
  moreover have "(1::real) < 2 ^ 1024" by simp
  ultimately have "\<not> 2 ^ 1024 \<le> \<bar>round_double (1 / of_int n)\<bar>" by linarith
  then show ?thesis using assms by (simp add: py_truediv_def Let_def)
qed

lemma float_literal_half: "float_literal (5 / 10) = 1 / 2" "float_literal (1 / 2) = 1 / 2"
  by (simp_all add: float_eval)

section \<open>Organic and delegated votes\<close>

text \<open>
  C1 (the code departs from the claim). Organic votes are meant to be the holder's own
  balance under the weight-proportional policy, whatever the delegations. The code
  computes them with \<open>get_shares\<close>, the effective shares: in \<open>delegation_ledger\<close> holder A,
  who holds 10 and receives B's delegation, gets 15 organic votes, and holder B, who
  holds 5 and delegates, gets 0.
\<close>

theorem C1_organic_votes_follow_effective_shares:
  "get_organic_votes (Some ''A'') delegation_ledger = Inr 15 \<and>
   get_organic_shares (Some ''A'') delegation_ledger = Inr 10 \<and>
   get_organic_votes (Some ''B'') delegation_ledger = Inr 0 \<and>
   get_organic_shares (Some ''B'') delegation_ledger = Inr 5"
  by (simp add: query_defs delegation_ledger_def VOTE_POLICY_ODOV_def)

text \<open>
  C2 (the code departs from the claim). Delegated votes are meant to be the sum of the
  direct delegators' own balances under the weight-proportional policy. In
  \<open>delegation_ledger\<close> the only delegator of A is B, who holds 5, yet A's delegated votes
  are 0: each delegator's organic votes are its effective shares, which are 0 because it
  delegates.
\<close>

theorem C2_delegated_votes_vanish:
  "get_delegators (Some ''A'') delegation_ledger = Inr [''B''] \<and>
   get_organic_shares (Some ''B'') delegation_ledger = Inr 5 \<and>
   get_delegated_votes (Some ''A'') delegation_ledger = Inr 0"
  by (simp add: query_defs delegation_ledger_def VOTE_POLICY_ODOV_def)

section \<open>Effective votes and shares\<close>

lemma py_sum_values:
  "\<forall>x\<in>set xs. g x = Inr (f x) \<Longrightarrow> py_sum (map g xs) = Inr (sum_list (map f xs))"
  by (induction xs) simp_all






















section \<open>Default addresses\<close>

text \<open>
  C6 (the code departs from the claim). An omitted address is meant to stand for the
  caller. \<open>get_delegators\<close> and \<open>get_organic_shares\<close> check the caller's membership but then
  use the omitted address itself: called by A in \<open>delegation_ledger\<close>, they return no
  delegator and no share, while with A passed explicitly they return B and 10.
\<close>

theorem C6_omitted_address_differs:
  "sender delegation_ledger = ''A'' \<and>
   get_delegators None delegation_ledger = Inr [] \<and>
   get_delegators (Some ''A'') delegation_ledger = Inr [''B''] \<and>
   get_organic_shares None delegation_ledger = Inr 0 \<and>
   get_organic_shares (Some ''A'') delegation_ledger = Inr 10"
  by (simp add: query_defs delegation_ledger_def VOTE_POLICY_ODOV_def)

section \<open>The reference scenario\<close>

lemma scenario_odov_eq:
  "scenario_odov =
     \<lparr>name = ''Pikciotronics Ltd'', symbol = ''PKT'', decimals = 0, total_supply = 13000000,
      balance_of = [(''Pikcio SA'', 11800000), (''John'', 1200000)],
      vote_mode = 1, emitter = ''Pikcio SA'', delegations = [], sender = ''Pikcio SA'',
      events = []\<rparr>"
  by (simp add: scenario_odov_def initial_state_def init_def transfer_def base_transfer_def
      Balances_get_def Balances_set_def dict_get_def VOTE_POLICY_ODOV_def Let_def)

lemma scenario_opov_eq: "scenario_opov = scenario_odov\<lparr>vote_mode := 2\<rparr>"
  by (simp add: scenario_opov_def scenario_odov_eq set_vote_mode_def assert_is_emitter_def
      VOTE_POLICY_OPOV_def)

lemma john_votes_odov: "get_votes (Some ''John'') scenario_odov = Inr 1200000"
  by (simp add: scenario_odov_eq query_defs VOTE_POLICY_ODOV_def)

lemma john_votes_opov: "get_votes (Some ''John'') scenario_opov = Inr 1"
  by (simp add: scenario_opov_eq scenario_odov_eq query_defs VOTE_POLICY_ODOV_def)

lemma total_votes_odov: "get_total_votes scenario_odov = 13000000"
  by (simp add: scenario_odov_eq query_defs VOTE_POLICY_ODOV_def)

lemma total_votes_opov: "get_total_votes scenario_opov = 2"
  by (simp add: scenario_opov_eq scenario_odov_eq query_defs VOTE_POLICY_ODOV_def)

lemma john_quotient:
  "py_truediv 1200000 13000000 = Inr (831433777360707 / 9007199254740992)"
  by (simp add: py_truediv_def float_eval)

lemma half_quotient: "py_truediv 1 2 = Inr (1 / 2)"
  by (simp add: py_truediv_def float_eval)

lemma john_weight_odov:
  "get_weight (Some ''John'') scenario_odov = Inr (831433777360707 / 9007199254740992)"
  by (simp add: get_weight_def john_votes_odov total_votes_odov john_quotient)

lemma john_weight_opov: "get_weight (Some ''John'') scenario_opov = Inr (1 / 2)"
  by (simp add: get_weight_def john_votes_opov total_votes_opov half_quotient)

lemma john_rights_odov:
  "priv_get_rights (831433777360707 / 9007199254740992) = snd (SHAREHOLDERS_RIGHTS ! 0)"
  by (simp add: priv_get_rights_def SHAREHOLDERS_RIGHTS_def float_eval)

text \<open>
  C7. In the reference scenario, under the weight-proportional policy the total is
  13,000,000 votes, John's weight is the float \<^verbatim>\<open>1200000 / 13000000\<close> (the double
  \<open>831433777360707 / 2\<^sup>5\<^sup>3\<close>, within \<open>2\<^sup>-\<^sup>5\<^sup>7\<close> of the exact quotient and between 0.0923 and
  0.0924), his rights are the list of the 0.05 bracket and nothing else, and he has no
  majority. After the switch to one-holder-one-vote the total is 2 votes, his weight is
  exactly 0.5, and he still has no majority, the comparison with 0.5 being strict.
\<close>

theorem C7_reference_scenario:
  "balance_of scenario_odov = [(''Pikcio SA'', 11800000), (''John'', 1200000)] \<and>
   delegations scenario_odov = [] \<and>
   get_total_votes scenario_odov = 13000000 \<and>
   get_weight (Some ''John'') scenario_odov = py_truediv 1200000 13000000 \<and>
   get_weight (Some ''John'') scenario_odov = Inr (831433777360707 / 9007199254740992) \<and>
   \<bar>831433777360707 / 9007199254740992 - 1200000 / 13000000\<bar> < (1 / 2 ^ 57 :: real) \<and>
   923 / 10000 < (831433777360707 / 9007199254740992 :: real) \<and>
   (831433777360707 / 9007199254740992 :: real) < 924 / 10000 \<and>
   get_rights (Some ''John'') scenario_odov = Inr (snd (SHAREHOLDERS_RIGHTS ! 0)) \<and>
   is_majority (Some ''John'') scenario_odov = Inr False \<and>
   get_total_votes scenario_opov = 2 \<and>
   get_weight (Some ''John'') scenario_opov = Inr (1 / 2) \<and>
   is_majority (Some ''John'') scenario_opov = Inr False"
proof -
  have r: "get_rights (Some ''John'') scenario_odov = Inr (snd (SHAREHOLDERS_RIGHTS ! 0))"
    by (simp add: get_rights_def john_weight_odov john_rights_odov)
  have m1: "is_majority (Some ''John'') scenario_odov = Inr False"
    by (simp add: is_majority_def john_weight_odov float_literal_half)
  have m2: "is_majority (Some ''John'') scenario_opov = Inr False"
    by (simp add: is_majority_def john_weight_opov float_literal_half)
  have b: "balance_of scenario_odov = [(''Pikcio SA'', 11800000), (''John'', 1200000)]"
    "delegations scenario_odov = []"
    by (simp_all add: scenario_odov_eq)
  have n: "\<bar>831433777360707 / 9007199254740992 - 1200000 / 13000000\<bar> < (1 / 2 ^ 57 :: real)"
    "923 / 10000 < (831433777360707 / 9007199254740992 :: real)"
    "(831433777360707 / 9007199254740992 :: real) < 924 / 10000"
    by simp_all
  show ?thesis
    using r m1 m2 b n total_votes_odov total_votes_opov john_weight_odov john_weight_opov
      john_quotient
    by simp
qed

section \<open>The rights of a weight\<close>

lemma thresholds:
  "map fst SHAREHOLDERS_RIGHTS =
     [3602879701896397 / 72057594037927936, 3602879701896397 / 36028797018963968,
      5404319552844595 / 36028797018963968, 1 / 4]"
  by (simp add: SHAREHOLDERS_RIGHTS_def float_eval)

lemma thresholds_sorted: "sorted (map fst SHAREHOLDERS_RIGHTS)"
  by (simp add: thresholds)

lemma chain_is_filter:
  "concat [rights. (min_weight, rights) \<leftarrow> brackets, min_weight \<le> w] =
   concat (map snd (unlocked w brackets))"
  by (induction brackets) (auto simp: unlocked_def)

lemma unlocked_prefix:
  "sorted (map fst brackets) \<Longrightarrow> w1 \<le> w2 \<Longrightarrow>
     prefix (unlocked w1 brackets) (unlocked w2 brackets)"
proof (induction brackets)
  case Nil
  then show ?case by (simp add: unlocked_def)
next
  case (Cons b bs)
  show ?case
  proof (cases "fst b \<le> w1")
    case True
    with Cons show ?thesis by (simp add: unlocked_def)
  next
    case False
    with Cons.prems have "\<forall>c\<in>set bs. \<not> fst c \<le> w1" by fastforce
    then have "filter (\<lambda>c. fst c \<le> w1) bs = []" by (simp add: filter_empty_conv)
    with False show ?thesis by (simp add: unlocked_def)
  qed
qed

lemma prefix_concat_map: "prefix xs ys \<Longrightarrow> prefix (concat (map f xs)) (concat (map f ys))"
  by (auto simp: prefix_def)

text \<open>
  C8. For every weight \<open>w\<close>, \<open>_get_rights\<close> returns the right-lists of all brackets whose
  threshold is at most \<open>w\<close>, chained in ascending order of threshold and with nothing
  removed. Hence for \<open>w1 < w2\<close> the rights of \<open>w1\<close> are a prefix, and so a sub-multiset, of
  the rights of \<open>w2\<close>.
\<close>

theorem C8_rights_lookup:
  "priv_get_rights w =
     concat (map snd (filter (\<lambda>b. fst b \<le> w) (sort_key fst SHAREHOLDERS_RIGHTS))) \<and>
   (w1 < w2 \<longrightarrow>
      prefix (priv_get_rights w1) (priv_get_rights w2) \<and>
      mset (priv_get_rights w1) \<subseteq># mset (priv_get_rights w2))"
proof -
  have srt: "sort_key fst SHAREHOLDERS_RIGHTS = SHAREHOLDERS_RIGHTS"
    using thresholds_sorted by (rule sort_key_id_if_sorted)
  have eq: "priv_get_rights v = concat (map snd (unlocked v SHAREHOLDERS_RIGHTS))" for v
    unfolding priv_get_rights_def by (rule chain_is_filter)
  have pre: "prefix (priv_get_rights w1) (priv_get_rights w2)" if "w1 < w2"
    unfolding eq using that thresholds_sorted
    by (intro prefix_concat_map unlocked_prefix) simp_all
  have "mset (priv_get_rights w1) \<subseteq># mset (priv_get_rights w2)" if "w1 < w2"
    using pre [OF that] by (auto simp: prefix_def)
  with pre srt eq show ?thesis by (simp add: unlocked_def)
qed

theorem C8_rights_lookup_witness:
  "(6 / 100 :: real) < 12 / 100 \<and>
   priv_get_rights (12 / 100) =
     concat (map snd (filter (\<lambda>b. fst b \<le> 12 / 100) (sort_key fst SHAREHOLDERS_RIGHTS))) \<and>
   prefix (priv_get_rights (6 / 100)) (priv_get_rights (12 / 100)) \<and>
   mset (priv_get_rights (6 / 100)) \<subseteq># mset (priv_get_rights (12 / 100))"
proof -
  have lt: "(6 / 100 :: real) < 12 / 100" by simp
  from C8_rights_lookup [of "12 / 100" "6 / 100" "12 / 100"] lt show ?thesis by blast
qed

section \<open>Stock split\<close>

text \<open>
  C9. When the emitter calls \<open>split_stock\<close> with a factor that is zero or negative, the
  call fails with \<open>InvalidArgument\<close> and the state it leaves is the state it found: no
  balance and no total supply has changed.
\<close>

theorem C9_split_stock_rejects_nonpositive_factor:
  "factor \<le> 0 \<Longrightarrow> sender s = emitter s \<Longrightarrow> split_stock factor s = (Inl InvalidArgument, s)"
  by (simp add: split_stock_def assert_is_emitter_def)

theorem C9_split_stock_rejects_nonpositive_factor_witness:
  "(0 :: real) \<le> 0 \<and> (- 1 :: real) \<le> 0 \<and> sender delegation_ledger = emitter delegation_ledger \<and>
   split_stock 0 delegation_ledger = (Inl InvalidArgument, delegation_ledger) \<and>
   split_stock (- 1) delegation_ledger = (Inl InvalidArgument, delegation_ledger) \<and>
   balance_of (snd (split_stock (- 1) delegation_ledger)) = [(''A'', 10), (''B'', 5)] \<and>
   total_supply (snd (split_stock (- 1) delegation_ledger)) = 15"
  using C9_split_stock_rejects_nonpositive_factor [of 0 delegation_ledger]
    C9_split_stock_rejects_nonpositive_factor [of "- 1" delegation_ledger]
  by (simp add: delegation_ledger_def)

lemma int_of_product_floor:
  assumes "0 \<le> b" "0 < f" "in_double_range (round_double (of_int b))"
    "in_double_range (double_product b f)"
  shows "int_of_product b f = Inr \<lfloor>double_product b f\<rfloor>"
proof -
  have "0 \<le> round_double (of_int b)" using assms(1) by (simp add: round_double_nonneg)
  with assms(2) have "0 \<le> round_double (of_int b) * f" by simp
  then have "0 \<le> double_product b f"
    unfolding double_product_def by (rule round_double_nonneg)
  then show ?thesis
    using assms(3,4)
    by (simp add: int_of_product_def float_of_int_def Let_def in_double_range_def
        int_of_float_def double_product_def)
qed

lemma int_of_product_overflow:
  assumes "\<not> (in_double_range (round_double (of_int b)) \<and> in_double_range (double_product b f))"
  shows "int_of_product b f = Inl OverflowError"
  using assms
  by (auto simp: int_of_product_def float_of_int_def Let_def in_double_range_def
      double_product_def)

lemma update_in_place:
  "k \<notin> fst ` set pre \<Longrightarrow> AList.update k v (pre @ (k, w) # rest) = pre @ (k, v) # rest"
  by (induction pre) auto

lemma index_in_place:
  "k \<notin> fst ` set pre \<Longrightarrow> dict_index (pre @ (k, w) # rest) k = Inr w"
  by (simp add: dict_index_def map_add_dom_app_simps dom_map_of_conv_image_fst)

lemma split_balances_all:
  "distinct (map fst (pre @ rest)) \<Longrightarrow>
   \<forall>(k, v)\<in>set rest. int_of_product v f = Inr (g v) \<Longrightarrow>
   split_balances (map fst rest) f (pre @ rest) =
     (None, pre @ map (\<lambda>(k, v). (k, g v)) rest)"
proof (induction rest arbitrary: pre)
  case Nil
  then show ?case by simp
next
  case (Cons kv rest)
  obtain k v where kv: "kv = (k, v)" by (cases kv)
  from Cons.prems(1) kv have notin: "k \<notin> fst ` set pre" by auto
  from Cons.prems(2) kv have prod: "int_of_product v f = Inr (g v)" by simp
  have d: "distinct (map fst ((pre @ [(k, g v)]) @ rest))"
    using Cons.prems(1) kv by simp
  have r: "\<forall>(k, v)\<in>set rest. int_of_product v f = Inr (g v)"
    using Cons.prems(2) by simp
  from Cons.IH [OF d r] notin prod show ?case
    by (simp add: kv index_in_place update_in_place)
qed

lemma split_balances_overflow:
  "distinct (map fst (pre @ rest)) \<Longrightarrow>
   \<forall>(k, v)\<in>set rest. int_of_product v f = Inl OverflowError \<or> (\<exists>w. int_of_product v f = Inr w) \<Longrightarrow>
   \<exists>(k, v)\<in>set rest. int_of_product v f = Inl OverflowError \<Longrightarrow>
   fst (split_balances (map fst rest) f (pre @ rest)) = Some OverflowError"
proof (induction rest arbitrary: pre)
  case Nil
  then show ?case by simp
next
  case (Cons kv rest)
  obtain k v where kv: "kv = (k, v)" by (cases kv)
  from Cons.prems(1) kv have notin: "k \<notin> fst ` set pre" by auto
  show ?case
  proof (cases "int_of_product v f")
    case (Inl e)
    with Cons.prems(2) kv have "e = OverflowError" by auto
    with Inl notin show ?thesis by (simp add: kv index_in_place)
  next
    case (Inr w)
    have d: "distinct (map fst ((pre @ [(k, w)]) @ rest))"
      using Cons.prems(1) kv by simp
    have r: "\<forall>(k, v)\<in>set rest.
        int_of_product v f = Inl OverflowError \<or> (\<exists>w. int_of_product v f = Inr w)"
      using Cons.prems(2) by simp
    have e: "\<exists>(k, v)\<in>set rest. int_of_product v f = Inl OverflowError"
      using Cons.prems(3) kv Inr by auto
    from Cons.IH [OF d r e] notin Inr show ?thesis
      by (simp add: kv index_in_place update_in_place)
  qed
qed

lemma sum_of_ledger:
  assumes "distinct (map fst b)"
  shows "py_sum (map (dict_index b) (map fst b)) = Inr (sum_list (map snd b))"
proof -
  have "\<forall>x\<in>set b. (dict_index b \<circ> fst) x = Inr (snd x)"
    using assms by (auto simp: dict_index_def)
  then have "py_sum (map (dict_index b \<circ> fst) b) = Inr (sum_list (map snd b))"
    by (rule py_sum_values)
  then show ?thesis by simp
qed

lemma split_stock_result:
  assumes "sender s = emitter s" "0 < f"
    and "split_balances (map fst (balance_of s)) f (balance_of s) = (None, new)"
    and "py_sum (map (dict_index new) (map fst new)) = Inr T"
  shows "split_stock f s =
    (Inr T,
     s\<lparr>balance_of := new,
       events :=
         (if 0 < T - total_supply s
          then events s @ [Minted (emitter s) (T - total_supply s) T]
          else if T - total_supply s < 0
          then events s @ [Burnt (emitter s) (- (T - total_supply s)) T]
          else events s),
       total_supply := T\<rparr>)"
  using assms by (simp add: split_stock_def assert_is_emitter_def Let_def)

lemma split_stock_returns:
  assumes "ledger_wf s" "sender s = emitter s" "0 < f" "split_in_range f s"
    and "T = sum_list (map (\<lambda>(a, b). \<lfloor>double_product b f\<rfloor>) (balance_of s))"
  shows "split_stock f s =
    (Inr T,
     s\<lparr>balance_of := map (\<lambda>(a, b). (a, \<lfloor>double_product b f\<rfloor>)) (balance_of s),
       events :=
         (if 0 < T - total_supply s
          then events s @ [Minted (emitter s) (T - total_supply s) T]
          else if T - total_supply s < 0
          then events s @ [Burnt (emitter s) (- (T - total_supply s)) T]
          else events s),
       total_supply := T\<rparr>)"
proof -
  let ?g = "\<lambda>b. \<lfloor>double_product b f\<rfloor>"
  let ?new = "map (\<lambda>(a, b). (a, ?g b)) (balance_of s)"
  have dist: "distinct (map fst ([] @ balance_of s))"
    using assms(1) by (simp add: ledger_wf_def)
  have "\<forall>(k, v)\<in>set (balance_of s). int_of_product v f = Inr (?g v)"
    using assms(1,3,4)
    by (auto simp: ledger_wf_def split_in_range_def list_all_iff intro!: int_of_product_floor)
  with dist have "split_balances (map fst (balance_of s)) f ([] @ balance_of s) =
      (None, [] @ ?new)"
    by (rule split_balances_all)
  then have loop: "split_balances (map fst (balance_of s)) f (balance_of s) = (None, ?new)"
    by simp
  have keys: "map fst ?new = map fst (balance_of s)"
    by (simp add: case_prod_unfold comp_def)
  have "distinct (map fst ?new)"
    unfolding keys using assms(1) by (simp add: ledger_wf_def)
  then have s1: "py_sum (map (dict_index ?new) (map fst ?new)) = Inr (sum_list (map snd ?new))"
    by (rule sum_of_ledger)
  have s2: "map snd ?new = map (\<lambda>(a, b). ?g b) (balance_of s)"
    by (simp add: case_prod_unfold comp_def)
  have total: "py_sum (map (dict_index ?new) (map fst ?new)) = Inr T"
    unfolding assms(5) s2 [symmetric] by (rule s1)
  from assms(2,3) loop total show ?thesis by (rule split_stock_result)
qed

text \<open>
  C4 (as amended). Let the ledger hold non-negative balances, let the emitter call
  \<open>split_stock\<close> with a factor \<open>f > 0\<close>, and let the split be in the range of the doubles.
  Then the call returns; every balance \<open>b\<close> becomes the floor of the float \<^verbatim>\<open>b * f\<close>, that
  is of the product of the double nearest to \<open>b\<close> with \<open>f\<close>, rounded to the nearest double;
  the returned total supply is the exact sum of the new balances; and the committed
  total supply is that sum.
\<close>

theorem C4_split_stock_reconciles:
  assumes "ledger_wf s" and "sender s = emitter s" and "0 < f" and "split_in_range f s"
  shows "balance_of (snd (split_stock f s)) =
           map (\<lambda>(a, b). (a, \<lfloor>round_double (round_double (real_of_int b) * f)\<rfloor>))
             (balance_of s) \<and>
         fst (split_stock f s) = Inr (sum_list (map snd (balance_of (snd (split_stock f s))))) \<and>
         total_supply (snd (split_stock f s)) =
           sum_list (map snd (balance_of (snd (split_stock f s))))"
  by (simp add: split_stock_returns [OF assms refl] double_product_def case_prod_unfold comp_def)

theorem C4_split_stock_reconciles_witness:
  "ledger_wf delegation_ledger \<and>
   sender delegation_ledger = emitter delegation_ledger \<and>
   (0 :: real) < 3 / 2 \<and>
   split_in_range (3 / 2) delegation_ledger \<and>
   balance_of (snd (split_stock (3 / 2) delegation_ledger)) = [(''A'', 15), (''B'', 7)] \<and>
   fst (split_stock (3 / 2) delegation_ledger) = Inr 22 \<and>
   total_supply (snd (split_stock (3 / 2) delegation_ledger)) = 22"
proof -
  have wf: "ledger_wf delegation_ledger"
    by (simp add: ledger_wf_def delegation_ledger_def)
  have em: "sender delegation_ledger = emitter delegation_ledger"
    by (simp add: delegation_ledger_def)
  have pos: "(0 :: real) < 3 / 2" by simp
  have r: "round_double 10 = 10" "round_double 5 = 5"
    "round_double 15 = 15" "round_double (15 / 2) = 15 / 2"
    by (simp_all add: float_eval)
  have rng: "split_in_range (3 / 2) delegation_ledger"
    by (simp add: split_in_range_def delegation_ledger_def in_double_range_def
        double_product_def r)
  have new: "map (\<lambda>(a, b). (a, \<lfloor>round_double (round_double (real_of_int b) * (3 / 2))\<rfloor>))
      (balance_of delegation_ledger) = [(''A'', 15), (''B'', 7)]"
    by (simp add: delegation_ledger_def r)
  from C4_split_stock_reconciles [OF wf em pos rng] new
  have "balance_of (snd (split_stock (3 / 2) delegation_ledger)) = [(''A'', 15), (''B'', 7)]"
    and "fst (split_stock (3 / 2) delegation_ledger) =
      Inr (sum_list (map snd (balance_of (snd (split_stock (3 / 2) delegation_ledger)))))"
    and "total_supply (snd (split_stock (3 / 2) delegation_ledger)) =
      sum_list (map snd (balance_of (snd (split_stock (3 / 2) delegation_ledger))))"
    by simp_all
  with wf em pos rng show ?thesis by simp
qed

text \<open>
  C4 as stated fails: the new balance is not always the floor of the exact product. A
  holder of \<open>2\<^sup>5\<^sup>3 + 1\<close> shares keeps \<open>2\<^sup>5\<^sup>3\<close> after a split by 1.0, because the balance is
  converted to the nearest double before it is multiplied; the split by one burns a
  share.
\<close>

theorem C4_split_rounds_to_double:
  "(0 :: real) < 1 \<and>
   sender big_holder_ledger = emitter big_holder_ledger \<and>
   balance_of big_holder_ledger = [(''A'', 9007199254740993)] \<and>
   balance_of (snd (split_stock 1 big_holder_ledger)) = [(''A'', 9007199254740992)] \<and>
   \<lfloor>real_of_int 9007199254740993 * 1\<rfloor> = (9007199254740993 :: int) \<and>
   fst (split_stock 1 big_holder_ledger) = Inr 9007199254740992 \<and>
   events (snd (split_stock 1 big_holder_ledger)) = [Burnt ''A'' 1 9007199254740992]"
  by (simp add: split_stock_def assert_is_emitter_def big_holder_ledger_def dict_index_def
      int_of_product_def float_of_int_def int_of_float_def float_eval)

text \<open>A split that leaves the range of the doubles fails with \<^verbatim>\<open>OverflowError\<close>.\<close>

lemma split_stock_overflow:
  assumes "ledger_wf s" "sender s = emitter s" "0 < f" "\<not> split_in_range f s"
  shows "fst (split_stock f s) = Inl OverflowError"
proof -
  have dist: "distinct (map fst ([] @ balance_of s))"
    using assms(1) by (simp add: ledger_wf_def)
  have all: "\<forall>(k, v)\<in>set (balance_of s).
      int_of_product v f = Inl OverflowError \<or> (\<exists>w. int_of_product v f = Inr w)"
  proof (clarify)
    fix k v assume "(k, v) \<in> set (balance_of s)"
      and "\<not> (\<exists>w. int_of_product v f = Inr w)"
    with assms(1,3) int_of_product_floor [of v f] int_of_product_overflow [of v f]
    show "int_of_product v f = Inl OverflowError"
      by (auto simp: ledger_wf_def list_all_iff)
  qed
  have ex: "\<exists>(k, v)\<in>set (balance_of s). int_of_product v f = Inl OverflowError"
    using assms(4) int_of_product_overflow
    by (fastforce simp: split_in_range_def list_all_iff)
  from split_balances_overflow [OF dist all ex]
  have "fst (split_balances (map fst (balance_of s)) f (balance_of s)) = Some OverflowError"
    by simp
  then show ?thesis
    using assms(2,3)
    by (auto simp: split_stock_def assert_is_emitter_def split: prod.splits option.splits)
qed

lemma split_small_holder:
  "split_stock (1 / 2) small_holder_ledger =
     (Inr 5, small_holder_ledger\<lparr>balance_of := [(''A'', 5), (''B'', 0)],
                                 events := [Burnt ''A'' 6 5], total_supply := 5\<rparr>)"
  by (simp add: split_stock_def assert_is_emitter_def small_holder_ledger_def dict_index_def
      int_of_product_def float_of_int_def int_of_float_def float_eval)

text \<open>
  C5 (the code departs from the claim). A holder whose balance a split brings to 0 is
  meant to stop being a shareholder. \<open>split_stock\<close> writes the 0 into the ledger and keeps
  the record: after the emitter splits \<open>small_holder_ledger\<close> by 0.5, holder B has
  balance 0 and is still a shareholder, still counted among the 2 shareholders and the 2
  votes of the one-holder-one-vote policy.
\<close>

theorem C5_split_keeps_emptied_accounts:
  "fst (split_stock (1 / 2) small_holder_ledger) = Inr 5 \<and>
   balance_of (snd (split_stock (1 / 2) small_holder_ledger)) = [(''A'', 5), (''B'', 0)] \<and>
   is_shareholder (Some ''B'') (snd (split_stock (1 / 2) small_holder_ledger)) \<and>
   get_total_shareholders (snd (split_stock (1 / 2) small_holder_ledger)) = 2 \<and>
   vote_mode (snd (split_stock (1 / 2) small_holder_ledger)) = VOTE_POLICY_OPOV \<and>
   get_total_votes (snd (split_stock (1 / 2) small_holder_ledger)) = 2"
  unfolding split_small_holder
  by (simp add: query_defs small_holder_ledger_def VOTE_POLICY_OPOV_def VOTE_POLICY_ODOV_def)

section \<open>One holder, one vote\<close>

text \<open>
  C10. Under the one-holder-one-vote policy \<open>get_organic_votes\<close> returns 1 for every
  address, shareholder or not, and never fails. The organic weight of any address is
  therefore the float \<^verbatim>\<open>1 / n\<close> for the number \<open>n\<close> of ledger records: a value whenever the
  ledger is not empty, and \<open>ZeroDivisionError\<close>, not \<open>NotAShareholder\<close>, when it is.
\<close>

theorem C10_organic_votes_of_any_address:
  "vote_mode s = VOTE_POLICY_OPOV \<Longrightarrow>
     get_organic_votes a s = Inr 1 \<and>
     get_organic_weight a s = py_truediv 1 (get_total_shareholders s) \<and>
     get_organic_weight a s \<noteq> Inl NotAShareholder \<and>
     (0 < get_total_shareholders s \<longrightarrow>
        get_organic_weight a s = Inr (round_double (1 / of_int (get_total_shareholders s)))) \<and>
     (get_total_shareholders s = 0 \<longrightarrow> get_organic_weight a s = Inl ZeroDivisionError)"
proof -
  assume m: "vote_mode s = VOTE_POLICY_OPOV"
  have v: "get_organic_votes a s = Inr 1"
    using m by (simp add: get_organic_votes_def VOTE_POLICY_OPOV_def VOTE_POLICY_ODOV_def)
  have t: "get_total_votes s = get_total_shareholders s"
    using m by (simp add: get_total_votes_def get_total_shareholders_def
        VOTE_POLICY_OPOV_def VOTE_POLICY_ODOV_def)
  have w: "get_organic_weight a s = py_truediv 1 (get_total_shareholders s)"
    by (simp add: get_organic_weight_def v t)
  have ne: "py_truediv 1 (get_total_shareholders s) \<noteq> Inl NotAShareholder"
    by (simp add: py_truediv_def Let_def)
  have z: "get_total_shareholders s = 0 \<longrightarrow> get_organic_weight a s = Inl ZeroDivisionError"
    by (simp add: w py_truediv_def)
  show ?thesis using v w ne z py_truediv_one [of "get_total_shareholders s"] by simp
qed

theorem C10_organic_votes_of_any_address_witness:
  "vote_mode small_holder_ledger = VOTE_POLICY_OPOV \<and>
   \<not> is_shareholder (Some ''Nobody'') small_holder_ledger \<and>
   get_organic_votes (Some ''Nobody'') small_holder_ledger = Inr 1 \<and>
   get_organic_weight (Some ''Nobody'') small_holder_ledger = Inr (1 / 2)"
proof -
  have m: "vote_mode small_holder_ledger = VOTE_POLICY_OPOV"
    by (simp add: small_holder_ledger_def)
  have n: "get_total_shareholders small_holder_ledger = 2"
    by (simp add: small_holder_ledger_def get_total_shareholders_def)
  have r: "round_double (1 / 2) = 1 / 2"
    by (simp add: float_eval)
  have o: "\<not> is_shareholder (Some ''Nobody'') small_holder_ledger"
    by (simp add: small_holder_ledger_def is_shareholder_def address_or_sender_def)
  from C10_organic_votes_of_any_address [OF m, of "Some ''Nobody''"]
  have v: "get_organic_votes (Some ''Nobody'') small_holder_ledger = Inr 1"
    and w: "0 < get_total_shareholders small_holder_ledger \<longrightarrow>
      get_organic_weight (Some ''Nobody'') small_holder_ledger =
        Inr (round_double (1 / of_int (get_total_shareholders small_holder_ledger)))"
    by blast+
  from w have "get_organic_weight (Some ''Nobody'') small_holder_ledger = Inr (1 / 2)"
    by (simp add: n r)
  with m o v show ?thesis by simp
qed

end
